theory Spec2Isabelle
  imports Complex_Main "HOL-Library.Sublist" "HOL-Library.Multiset" "HOL-Library.Monad_Syntax"
begin

section \<open>The ESG dashboard script (app.py)\<close>

text \<open>
  The dashboard is one Python script that the web framework executes from its first line
  on every interaction. The model below follows the script up to the point where the
  table \<open>df\<close> is handed to the page layout (line 114), and the download artifact built
  from it (lines 127 to 132).

  Conventions of the embedding:
  \<^item> a Python \<open>str\<close> is a \<open>string\<close>; a \<open>char\<close> stands for the code point of the same
    number, so the model covers text whose code points are below 256;
  \<^item> a Python or numpy float is a \<open>pyfloat\<close>: an exact real number, or one of the special
    values infinity, minus infinity and NaN. Arithmetic on the finite values is exact
    (binary rounding and overflow of 64-bit floats are not modelled);
  \<^item> a pandas DataFrame is a list of labelled columns, in column order; labels may repeat;
  \<^item> a statement that raises is a function into \<open>option\<close>, \<open>None\<close> being the exception.
    Every handler of the script is \<open>except Exception\<close> or a bare \<open>except\<close>, so the kind
    of the exception never matters.
\<close>

subsection \<open>Strings\<close>

definition code_point :: "char \<Rightarrow> nat" where
  "code_point c = of_char c"

text \<open>Python's \<open>str.isspace\<close> on the code points below 256.\<close>

definition is_space :: "char \<Rightarrow> bool" where
  "is_space c = (let n = code_point c in
     (9 \<le> n \<and> n \<le> 13) \<or> (28 \<le> n \<and> n \<le> 32) \<or> n = 133 \<or> n = 160)"

text \<open>The line boundaries of \<open>str.splitlines\<close> on the code points below 256.\<close>

definition is_linebreak :: "char \<Rightarrow> bool" where
  "is_linebreak c = (let n = code_point c in
     (10 \<le> n \<and> n \<le> 13) \<or> (28 \<le> n \<and> n \<le> 30) \<or> n = 133)"

text \<open>
  \<open>str.lower\<close>, per character: the upper-case letters are A to Z and, in Latin-1, the
  code points 192 to 222 without 215; each has its lower-case letter 32 above, which is
  the same character with bit 5 set.
\<close>

fun lower_char :: "char \<Rightarrow> char" where
  "lower_char (Char b0 b1 b2 b3 b4 b5 b6 b7) =
     (let n = code_point (Char b0 b1 b2 b3 b4 b5 b6 b7) in
      if (65 \<le> n \<and> n \<le> 90) \<or> (192 \<le> n \<and> n \<le> 222 \<and> n \<noteq> 215)
      then Char b0 b1 b2 b3 b4 True b6 b7
      else Char b0 b1 b2 b3 b4 b5 b6 b7)"

definition lower :: "string \<Rightarrow> string" where
  "lower s = map lower_char s"

definition strip :: "string \<Rightarrow> string" where
  "strip s = rev (dropWhile is_space (rev (dropWhile is_space s)))"

text \<open>\<open>sub in s\<close> for strings: \<open>sub\<close> occurs in \<open>s\<close> as a contiguous run.\<close>

fun contains :: "string \<Rightarrow> string \<Rightarrow> bool" where
  "contains sub [] = (sub = [])"
| "contains sub (c # cs) = (prefix sub (c # cs) \<or> contains sub cs)"

text \<open>
  \<open>str.split()\<close> without arguments: the maximal runs of non-space characters, in order.
  \<open>cur\<close> is the token being read, reversed.
\<close>

fun split_acc :: "string \<Rightarrow> string \<Rightarrow> string list" where
  "split_acc cur [] = (if cur = [] then [] else [rev cur])"
| "split_acc cur (c # cs) =
     (if is_space c then (if cur = [] then split_acc [] cs else rev cur # split_acc [] cs)
      else split_acc (c # cur) cs)"

definition split :: "string \<Rightarrow> string list" where
  "split s = split_acc [] s"

text \<open>
  \<open>str.splitlines()\<close>: the text is cut at every line boundary, a carriage return followed
  by a line feed counting as one boundary; no empty last line is produced.
\<close>

fun splitlines_acc :: "string \<Rightarrow> string \<Rightarrow> string list" where
  "splitlines_acc cur [] = (if cur = [] then [] else [rev cur])"
| "splitlines_acc cur [c] =
     (if is_linebreak c then [rev cur] else [rev (c # cur)])"
| "splitlines_acc cur (c # d # cs) =
     (if code_point c = 13 \<and> code_point d = 10 then rev cur # splitlines_acc [] cs
      else if is_linebreak c then rev cur # splitlines_acc [] (d # cs)
      else splitlines_acc (c # cur) (d # cs))"

definition splitlines :: "string \<Rightarrow> string list" where
  "splitlines s = splitlines_acc [] s"

subsection \<open>Floats\<close>

text \<open>
  The finite values are real numbers and the arithmetic below is exact on them. The
  program computes with 64-bit binary floats, which round every result and overflow to
  infinity; the two agree where all the values involved are doubles and no result is
  rounded, as for the whole-number entries of the examples evaluated below. No statement
  below says more about the arithmetic of the program than that.
\<close>

datatype pyfloat = Fin real | PInf | NInf | NaN

fun fadd :: "pyfloat \<Rightarrow> pyfloat \<Rightarrow> pyfloat" where
  "fadd (Fin a) (Fin b) = Fin (a + b)"
| "fadd NaN _ = NaN"
| "fadd _ NaN = NaN"
| "fadd PInf NInf = NaN"
| "fadd NInf PInf = NaN"
| "fadd PInf _ = PInf"
| "fadd _ PInf = PInf"
| "fadd NInf _ = NInf"
| "fadd _ NInf = NInf"

text \<open>Division by a positive finite constant (the script only divides by 3).\<close>

fun fdiv :: "pyfloat \<Rightarrow> real \<Rightarrow> pyfloat" where
  "fdiv (Fin a) k = Fin (a / k)"
| "fdiv x k = x"

text \<open>Round to the nearest integer, a tie going to the even neighbour (numpy's \<open>rint\<close>).\<close>

definition rint :: "real \<Rightarrow> int" where
  "rint y = (let f = \<lfloor>y\<rfloor>; d = y - of_int f in
     if d < 1 / 2 then f else if 1 / 2 < d then f + 1 else if even f then f else f + 1)"

text \<open>\<open>round(1)\<close> of numpy and pandas: scale by ten, \<open>rint\<close>, scale back.\<close>

fun fround1 :: "pyfloat \<Rightarrow> pyfloat" where
  "fround1 (Fin a) = Fin (of_int (rint (a * 10)) / 10)"
| "fround1 x = x"

text \<open>\<open>x >= k\<close> for a float and a finite constant; every comparison with NaN is false.\<close>

fun fge :: "pyfloat \<Rightarrow> real \<Rightarrow> bool" where
  "fge (Fin a) k = (k \<le> a)"
| "fge PInf k = True"
| "fge NInf k = False"
| "fge NaN k = False"

fun flt :: "pyfloat \<Rightarrow> real \<Rightarrow> bool" where
  "flt (Fin a) k = (a < k)"
| "flt PInf k = False"
| "flt NInf k = True"
| "flt NaN k = False"

subsection \<open>\<open>float(str)\<close>\<close>

definition is_digit :: "char \<Rightarrow> bool" where
  "is_digit c = (let n = code_point c in 48 \<le> n \<and> n \<le> 57)"

definition digit_val :: "char \<Rightarrow> nat" where
  "digit_val c = code_point c - 48"

text \<open>A digit part: digits, with single underscores allowed between two digits.\<close>

fun digitpart :: "string \<Rightarrow> bool" where
  "digitpart [] = False"
| "digitpart [c] = is_digit c"
| "digitpart (c # d # cs) =
     (is_digit c \<and> (if d = CHR ''_'' then digitpart cs else digitpart (d # cs)))"

definition digits_val :: "string \<Rightarrow> nat" where
  "digits_val ds = foldl (\<lambda>a c. 10 * a + digit_val c) 0 (filter is_digit ds)"

definition split_sign :: "string \<Rightarrow> bool \<times> string" where
  "split_sign s =
     (case s of
        [] \<Rightarrow> (False, [])
      | c # cs \<Rightarrow> if c = CHR ''-'' then (True, cs)
                  else if c = CHR ''+'' then (False, cs) else (False, s))"

definition not_exp_mark :: "char \<Rightarrow> bool" where
  "not_exp_mark c = (c \<noteq> CHR ''e'' \<and> c \<noteq> CHR ''E'')"

definition not_point :: "char \<Rightarrow> bool" where
  "not_point c = (c \<noteq> CHR ''.'')"

text \<open>
  An unsigned decimal number: an integer part and a fraction part around an optional
  point, at least one of them present, then an optional exponent.
\<close>

definition parse_number :: "string \<Rightarrow> real option" where
  "parse_number s =
     (let mant = takeWhile not_exp_mark s;
          rest = dropWhile not_exp_mark s;
          ip = takeWhile not_point mant;
          fp0 = dropWhile not_point mant;
          fp = drop 1 fp0;
          mant_ok = (if fp0 = [] then digitpart ip
                     else (ip = [] \<or> digitpart ip) \<and> (fp = [] \<or> digitpart fp)
                          \<and> (ip \<noteq> [] \<or> fp \<noteq> []));
          es = split_sign (drop 1 rest);
          exp_ok = (rest = [] \<or> digitpart (snd es));
          m = digits_val (ip @ fp);
          k = int (length (filter is_digit fp));
          e = (if rest = [] then 0
               else if fst es then - int (digits_val (snd es)) else int (digits_val (snd es)))
      in if mant_ok \<and> exp_ok
         then Some (if k \<le> e then real m * 10 ^ nat (e - k) else real m / 10 ^ nat (k - e))
         else None)"

text \<open>\<open>float(s)\<close>; \<open>None\<close> is the \<open>ValueError\<close> of a string that is no number.\<close>

definition float_of_str :: "string \<Rightarrow> pyfloat option" where
  "float_of_str s =
     (let sb = split_sign (strip s); l = lower (snd sb) in
      if l = ''inf'' \<or> l = ''infinity'' then Some (if fst sb then NInf else PInf)
      else if l = ''nan'' then Some NaN
      else map_option (\<lambda>x. Fin (if fst sb then - x else x)) (parse_number (snd sb)))"

subsection \<open>Data frames\<close>

text \<open>
  A cell holds a number or a text. (Boolean columns are not modelled.) A column of a
  frame read from a file may mix both: pandas keeps a column with any non-numeric entry
  as objects, its missing entries being NaN.
\<close>

datatype cell = Num pyfloat | Txt string

type_synonym series = "cell list"

type_synonym frame = "(string \<times> series) list"

definition labels :: "frame \<Rightarrow> string list" where
  "labels df = map fst df"

text \<open>All the columns of a frame that carry a label, in frame order.\<close>

definition cols :: "frame \<Rightarrow> string \<Rightarrow> series list" where
  "cols df k = map snd (filter (\<lambda>p. fst p = k) df)"

text \<open>
  \<open>df[k]\<close> used as one column. A label that is absent raises \<open>KeyError\<close>. A label that
  occurs more than once selects a frame instead of a column; the arithmetic of the
  script on such a selection ends in an exception when its result is assigned to a
  single column, so the model raises at the selection.
\<close>

definition getitem :: "frame \<Rightarrow> string \<Rightarrow> series option" where
  "getitem df k = (case cols df k of [c] \<Rightarrow> Some c | _ \<Rightarrow> None)"

text \<open>\<open>df[k] = v\<close>: replaces the column of that label, or appends a new last column.\<close>

definition setitem :: "frame \<Rightarrow> string \<Rightarrow> series \<Rightarrow> frame" where
  "setitem df k v =
     (if k \<in> set (labels df) then map (\<lambda>p. if fst p = k then (k, v) else p) df
      else df @ [(k, v)])"

text \<open>\<open>df[ks]\<close> for a list of labels: for each label in turn, the columns carrying it.\<close>

definition project :: "frame \<Rightarrow> string list \<Rightarrow> frame" where
  "project df ks = concat (map (\<lambda>k. filter (\<lambda>p. fst p = k) df) ks)"

text \<open>Python's \<open>+\<close>, \<open>/\<close> and \<open>round\<close> on the entries of a column.\<close>

fun cell_add :: "cell \<Rightarrow> cell \<Rightarrow> cell option" where
  "cell_add (Num a) (Num b) = Some (Num (fadd a b))"
| "cell_add (Txt a) (Txt b) = Some (Txt (a @ b))"
| "cell_add _ _ = None"

fun cell_div :: "real \<Rightarrow> cell \<Rightarrow> cell option" where
  "cell_div k (Num a) = Some (Num (fdiv a k))"
| "cell_div k (Txt a) = None"

fun cell_round1 :: "cell \<Rightarrow> cell option" where
  "cell_round1 (Num a) = Some (Num (fround1 a))"
| "cell_round1 (Txt a) = None"

definition series_add :: "series \<Rightarrow> series \<Rightarrow> series option" where
  "series_add xs ys = those (map2 cell_add xs ys)"

definition series_div :: "series \<Rightarrow> real \<Rightarrow> series option" where
  "series_div xs k = those (map (cell_div k) xs)"

definition series_round1 :: "series \<Rightarrow> series option" where
  "series_round1 xs = those (map cell_round1 xs)"

subsection \<open>Score evaluator (lines 43 and 44, 70 to 73, 105 to 108)\<close>

text \<open>The lambda of the risk column.\<close>

definition risk :: "pyfloat \<Rightarrow> string" where
  "risk x = (if fge x 80 then ''Low'' else (if fge x 60 then ''Medium'' else ''High''))"

fun cell_risk :: "cell \<Rightarrow> cell option" where
  "cell_risk (Num x) = Some (Txt (risk x))"
| "cell_risk (Txt s) = None"

text \<open>\<open>df["ESG Score"] = ((df["E"] + df["S"] + df["G"]) / 3).round(1)\<close>\<close>

definition set_esg_score :: "frame \<Rightarrow> frame option" where
  "set_esg_score df =
     do {
       e \<leftarrow> getitem df ''E'';
       s \<leftarrow> getitem df ''S'';
       es \<leftarrow> series_add e s;
       g \<leftarrow> getitem df ''G'';
       esg \<leftarrow> series_add es g;
       mean \<leftarrow> series_div esg 3;
       score \<leftarrow> series_round1 mean;
       Some (setitem df ''ESG Score'' score)
     }"

text \<open>\<open>df["Risk"] = df["ESG Score"].apply(lambda x: ...)\<close>\<close>

definition set_risk :: "frame \<Rightarrow> frame option" where
  "set_risk df =
     do {
       score \<leftarrow> getitem df ''ESG Score'';
       r \<leftarrow> those (map cell_risk score);
       Some (setitem df ''Risk'' r)
     }"

subsection \<open>Sample data (lines 36 to 42)\<close>

definition sample_data :: frame where
  "sample_data =
     [(''Company'', [Txt ''Tesla'', Txt ''Apple'', Txt ''Microsoft'', Txt ''Amazon'', Txt ''Google'']),
      (''E'', [Num (Fin 75), Num (Fin 85), Num (Fin 92), Num (Fin 70), Num (Fin 88)]),
      (''S'', [Num (Fin 65), Num (Fin 90), Num (Fin 88), Num (Fin 60), Num (Fin 80)]),
      (''G'', [Num (Fin 78), Num (Fin 89), Num (Fin 91), Num (Fin 73), Num (Fin 87)])]"

text \<open>Lines 42 to 44: the table every execution starts with.\<close>

definition sample_df :: "frame option" where
  "sample_df = do { df0 \<leftarrow> set_esg_score sample_data; set_risk df0 }"

subsection \<open>CSV upload (lines 53 to 79)\<close>

datatype notice =
    Uploaded
  | CsvLoaded
  | MissingColumns "string set"
  | CsvReadError
  | PdfNeedsPyPDF2
  | Preview string
  | PdfExtracted
  | NoTableInPdf
  | PdfReadError

definition required :: "string set" where
  "required = {''Company'', ''E'', ''S'', ''G''}"

text \<open>\<open>new_df.columns = new_df.columns.str.strip()\<close>\<close>

definition strip_columns :: "frame \<Rightarrow> frame" where
  "strip_columns df = map (\<lambda>p. (strip (fst p), snd p)) df"

text \<open>The \<open>if\<close>/\<open>elif\<close> chain of the loop body: the canonical name a column gets, if any.\<close>

definition canonical_name :: "string \<Rightarrow> string option" where
  "canonical_name col =
     (let c = lower col in
      if contains ''env'' c \<or> c = ''e'' then Some ''E''
      else if contains ''soc'' c \<or> c = ''s'' then Some ''S''
      else if contains ''gov'' c \<or> c = ''g'' then Some ''G''
      else if contains ''comp'' c then Some ''Company''
      else None)"

text \<open>The loop over the columns, filling the dictionary \<open>col_map\<close>.\<close>

fun fill_col_map :: "string list \<Rightarrow> (string \<rightharpoonup> string) \<Rightarrow> (string \<rightharpoonup> string)" where
  "fill_col_map [] col_map = col_map"
| "fill_col_map (col # columns) col_map =
     fill_col_map columns
       (case canonical_name col of Some k \<Rightarrow> col_map(col \<mapsto> k) | None \<Rightarrow> col_map)"

text \<open>\<open>new_df.rename(columns=col_map)\<close>: a label with an entry is replaced, others stay.\<close>

definition rename :: "frame \<Rightarrow> (string \<rightharpoonup> string) \<Rightarrow> frame" where
  "rename df col_map =
     map (\<lambda>p. (case col_map (fst p) of Some k \<Rightarrow> k | None \<Rightarrow> fst p, snd p)) df"

definition normalize_columns :: "frame \<Rightarrow> frame" where
  "normalize_columns new_df =
     (let stripped = strip_columns new_df
      in rename stripped (fill_col_map (labels stripped) Map.empty))"

text \<open>
  The body of the \<open>try\<close>. \<open>parsed\<close> is what \<open>pd.read_csv(file)\<close> returns, \<open>None\<close> when it
  raises. \<open>req_list\<close> is \<open>list(required)\<close>: the four names in the iteration order of the
  set, which Python does not fix. \<open>df\<close> is the table before the upload is handled.
  An exception after line 69 leaves \<open>df\<close> assigned.
\<close>

definition csv_upload :: "string list \<Rightarrow> frame option \<Rightarrow> frame \<Rightarrow> notice list \<times> frame" where
  "csv_upload req_list parsed df =
     (case parsed of
        None \<Rightarrow> ([CsvReadError], df)
      | Some raw \<Rightarrow>
          let new_df = normalize_columns raw in
          if required \<subseteq> set (labels new_df)
          then let df1 = project new_df req_list in
               (case set_esg_score df1 of
                  None \<Rightarrow> ([CsvReadError], df1)
                | Some df2 \<Rightarrow>
                    (case set_risk df2 of
                       None \<Rightarrow> ([CsvReadError], df2)
                     | Some df3 \<Rightarrow> ([CsvLoaded], df3)))
          else ([MissingColumns (required - set (labels new_df))], df))"

subsection \<open>PDF upload (lines 82 to 113)\<close>

type_synonym pdf_row = "string \<times> pyfloat \<times> pyfloat \<times> pyfloat"

text \<open>The loop over the lines; \<open>rows\<close> is the list built so far.\<close>

fun extract_rows :: "string list \<Rightarrow> pdf_row list \<Rightarrow> pdf_row list" where
  "extract_rows [] rows = rows"
| "extract_rows (line # rest) rows =
     (let parts = split line in
      if 4 \<le> length parts
      then (case float_of_str (parts ! 1) of
              None \<Rightarrow> extract_rows rest rows
            | Some e \<Rightarrow>
                (case float_of_str (parts ! 2) of
                   None \<Rightarrow> extract_rows rest rows
                 | Some s \<Rightarrow>
                     (case float_of_str (parts ! 3) of
                        None \<Rightarrow> extract_rows rest rows
                      | Some g \<Rightarrow> extract_rows rest (rows @ [(parts ! 0, e, s, g)]))))
      else extract_rows rest rows)"

text \<open>\<open>pd.DataFrame(rows, columns=["Company", "E", "S", "G"])\<close>\<close>

definition frame_of_rows :: "pdf_row list \<Rightarrow> frame" where
  "frame_of_rows rows =
     [(''Company'', map (\<lambda>r. Txt (fst r)) rows),
      (''E'', map (\<lambda>r. Num (fst (snd r))) rows),
      (''S'', map (\<lambda>r. Num (fst (snd (snd r)))) rows),
      (''G'', map (\<lambda>r. Num (snd (snd (snd r)))) rows)]"

text \<open>
  What the PDF library gives: it is not installed, or reading raises, or the text of
  each page (empty for a page without text).
\<close>

datatype pdf_source = PyPDF2Missing | PdfUnreadable | PdfPages "string list"

definition pdf_text :: "string list \<Rightarrow> string" where
  "pdf_text pages = concat (filter (\<lambda>t. t \<noteq> []) pages)"

definition pdf_upload :: "pdf_source \<Rightarrow> frame \<Rightarrow> notice list \<times> frame" where
  "pdf_upload src df =
     (case src of
        PyPDF2Missing \<Rightarrow> ([PdfNeedsPyPDF2], df)
      | PdfUnreadable \<Rightarrow> ([PdfReadError], df)
      | PdfPages pages \<Rightarrow>
          let text = pdf_text pages;
              rows = extract_rows (splitlines text) []
          in if rows \<noteq> []
             then let df1 = frame_of_rows rows in
                  (case set_esg_score df1 of
                     None \<Rightarrow> ([Preview (take 500 text), PdfReadError], df1)
                   | Some df2 \<Rightarrow>
                       (case set_risk df2 of
                          None \<Rightarrow> ([Preview (take 500 text), PdfReadError], df2)
                        | Some df3 \<Rightarrow> ([Preview (take 500 text), PdfExtracted], df3)))
             else ([Preview (take 500 text), NoTableInPdf], df))"

subsection \<open>The script up to the page layout (lines 33 to 114)\<close>

datatype mode = UseSampleData | UploadReport

text \<open>The uploaded file, by the ending of its name.\<close>

datatype upload = CsvFile "frame option" | PdfFile pdf_source | OtherFile

text \<open>
  One execution of the script: the notices shown and the table \<open>df\<close> handed to the
  layout. The script keeps nothing from one execution to the next. \<open>None\<close> would be an
  exception in lines 43 and 44, which no handler encloses.
\<close>

definition run :: "string list \<Rightarrow> mode \<Rightarrow> upload option \<Rightarrow> (notice list \<times> frame) option" where
  "run req_list m file =
     do {
       df \<leftarrow> sample_df;
       Some (if m = UploadReport
             then (case file of
                     None \<Rightarrow> ([], df)
                   | Some (CsvFile parsed) \<Rightarrow>
                       (Uploaded # fst (csv_upload req_list parsed df),
                        snd (csv_upload req_list parsed df))
                   | Some (PdfFile src) \<Rightarrow>
                       (Uploaded # fst (pdf_upload src df), snd (pdf_upload src df))
                   | Some OtherFile \<Rightarrow> ([Uploaded], df))
             else ([], df))
     }"

subsection \<open>Download (lines 127 to 132)\<close>

text \<open>
  The artifact of the download button. \<open>to_csv\<close> stands for pandas' writer followed by
  the UTF-8 encoding, \<open>df.to_csv(index=False).encode("utf-8")\<close>: it writes the labels of
  the frame as the header row, in column order, and one record per row.
\<close>

record 'csv download =
  data :: 'csv
  file_name :: string
  mime :: string

definition download_button :: "(frame \<Rightarrow> 'csv) \<Rightarrow> frame \<Rightarrow> 'csv download" where
  "download_button to_csv df =
     \<lparr>data = to_csv df, file_name = ''esg_scores.csv'', mime = ''text/csv''\<rparr>"

text \<open>The rows of a frame: row \<open>i\<close> pairs every label with the entry of its column.\<close>

definition nrows :: "frame \<Rightarrow> nat" where
  "nrows df = (case df of [] \<Rightarrow> 0 | p # _ \<Rightarrow> length (snd p))"

definition frame_row :: "frame \<Rightarrow> nat \<Rightarrow> (string \<times> cell) list" where
  "frame_row df i = map (\<lambda>p. (fst p, snd p ! i)) df"

subsection \<open>The specification's wording of two steps\<close>

text \<open>
  What the specification says is done with one line of the extracted text: it is split on
  whitespace into tokens; a line of fewer than four tokens is discarded; otherwise the
  first token is the company and the next three are parsed as numbers, and the line is
  discarded when any of the three does not parse.
\<close>

definition line_row :: "string \<Rightarrow> pdf_row option" where
  "line_row line =
     (let tokens = split line in
      if length tokens < 4 then None
      else if float_of_str (tokens ! 1) = None \<or> float_of_str (tokens ! 2) = None
              \<or> float_of_str (tokens ! 3) = None then None
      else Some (tokens ! 0, the (float_of_str (tokens ! 1)), the (float_of_str (tokens ! 2)),
                 the (float_of_str (tokens ! 3))))"

text \<open>
  What the specification says is done with one column header: it is lower-cased and
  trimmed, then classified by the first rule that matches. \<open>spec_label\<close> is the label
  the column then carries: the canonical name, or the trimmed header when no rule matches.
\<close>

definition spec_canonical :: "string \<Rightarrow> string option" where
  "spec_canonical header =
     (let h = strip (lower header) in
      if contains ''env'' h \<or> h = ''e'' then Some ''E''
      else if contains ''soc'' h \<or> h = ''s'' then Some ''S''
      else if contains ''gov'' h \<or> h = ''g'' then Some ''G''
      else if contains ''comp'' h then Some ''Company''
      else None)"

definition spec_label :: "string \<Rightarrow> string" where
  "spec_label header = (case spec_canonical header of Some k \<Rightarrow> k | None \<Rightarrow> strip header)"

subsection \<open>Notions used to state the properties\<close>

text \<open>The value that lines 43, 70 and 105 compute for one row with numeric entries.\<close>

definition esg_score :: "pyfloat \<Rightarrow> pyfloat \<Rightarrow> pyfloat \<Rightarrow> pyfloat" where
  "esg_score e s g = fround1 (fdiv (fadd (fadd e s) g) 3)"

text \<open>Entry \<open>i\<close> of the column labelled \<open>k\<close>, when the frame has exactly one such column.\<close>

definition entry :: "frame \<Rightarrow> string \<Rightarrow> nat \<Rightarrow> cell option" where
  "entry df k i =
     (case getitem df k of
        None \<Rightarrow> None
      | Some c \<Rightarrow> if i < length c then Some (c ! i) else None)"

text \<open>
  \<open>t\<close> is what the two statements of the score evaluator make of the frame \<open>d\<close>: \<open>d\<close>
  with the two derived columns appended, every row of which is computed from the numeric
  entries of that row in \<open>d\<close>.
\<close>

definition scored_table :: "frame \<Rightarrow> frame \<Rightarrow> bool" where
  "scored_table d t =
     (set_esg_score d \<bind> set_risk = Some t \<and>
      (\<exists>es ss gs sc rk.
        getitem d ''E'' = Some es \<and> getitem d ''S'' = Some ss \<and> getitem d ''G'' = Some gs
        \<and> t = d @ [(''ESG Score'', sc), (''Risk'', rk)]
        \<and> length sc = min (length es) (min (length ss) (length gs))
        \<and> length rk = length sc
        \<and> (\<forall>i<length sc. \<exists>e s g. es ! i = Num e \<and> ss ! i = Num s \<and> gs ! i = Num g
               \<and> sc ! i = Num (esg_score e s g) \<and> rk ! i = Txt (risk (esg_score e s g)))))"

section \<open>Properties\<close>

subsection \<open>The sample table\<close>

lemma sample_esg_score:
  "set_esg_score sample_data = Some (sample_data @
     [(''ESG Score'', [Num (Fin 72.7), Num (Fin 88), Num (Fin 90.3), Num (Fin 67.7), Num (Fin 85)])])"
  by (simp add: set_esg_score_def sample_data_def getitem_def cols_def series_add_def
      series_div_def series_round1_def setitem_def labels_def rint_def Let_def)

lemma sample_risk:
  "set_risk (sample_data @
     [(''ESG Score'', [Num (Fin 72.7), Num (Fin 88), Num (Fin 90.3), Num (Fin 67.7), Num (Fin 85)])])
   = Some (sample_data @
     [(''ESG Score'', [Num (Fin 72.7), Num (Fin 88), Num (Fin 90.3), Num (Fin 67.7), Num (Fin 85)]),
      (''Risk'', [Txt ''Medium'', Txt ''Low'', Txt ''Low'', Txt ''Medium'', Txt ''Low''])])"
  by (simp add: set_risk_def sample_data_def getitem_def cols_def setitem_def labels_def risk_def)

lemma sample_df_eq:
  "sample_df = Some
     [(''Company'', [Txt ''Tesla'', Txt ''Apple'', Txt ''Microsoft'', Txt ''Amazon'', Txt ''Google'']),
      (''E'', [Num (Fin 75), Num (Fin 85), Num (Fin 92), Num (Fin 70), Num (Fin 88)]),
      (''S'', [Num (Fin 65), Num (Fin 90), Num (Fin 88), Num (Fin 60), Num (Fin 80)]),
      (''G'', [Num (Fin 78), Num (Fin 89), Num (Fin 91), Num (Fin 73), Num (Fin 87)]),
      (''ESG Score'', [Num (Fin 72.7), Num (Fin 88), Num (Fin 90.3), Num (Fin 67.7), Num (Fin 85)]),
      (''Risk'', [Txt ''Medium'', Txt ''Low'', Txt ''Low'', Txt ''Medium'', Txt ''Low''])]"
  unfolding sample_df_def sample_esg_score by (simp add: sample_risk) (simp add: sample_data_def)

text \<open>
  Claim C9. In sample mode, whatever file is or is not uploaded, the Tesla row
  (75, 65, 78) carries the ESG Score 72.7 and the risk Medium, the Microsoft row
  (92, 88, 91) the score 90.3 and the risk Low, and the Amazon row (70, 60, 73) the score
  67.7 and the risk Medium. They are rows 0, 2 and 3 of the table.
\<close>

theorem sample_rows:
  "map_option (\<lambda>r. [frame_row (snd r) 0, frame_row (snd r) 2, frame_row (snd r) 3])
     (run req_list UseSampleData file) =
   Some [[(''Company'', Txt ''Tesla''), (''E'', Num (Fin 75)), (''S'', Num (Fin 65)),
          (''G'', Num (Fin 78)), (''ESG Score'', Num (Fin 72.7)), (''Risk'', Txt ''Medium'')],
         [(''Company'', Txt ''Microsoft''), (''E'', Num (Fin 92)), (''S'', Num (Fin 88)),
          (''G'', Num (Fin 91)), (''ESG Score'', Num (Fin 90.3)), (''Risk'', Txt ''Low'')],
         [(''Company'', Txt ''Amazon''), (''E'', Num (Fin 70)), (''S'', Num (Fin 60)),
          (''G'', Num (Fin 73)), (''ESG Score'', Num (Fin 67.7)), (''Risk'', Txt ''Medium'')]]"
  by (simp add: run_def sample_df_eq frame_row_def)

subsection \<open>The line tokenizer of the PDF branch\<close>

lemma extract_rows_acc: "extract_rows ls rows = rows @ List.map_filter line_row ls"
proof (induction ls arbitrary: rows)
  case Nil
  show ?case by (simp add: map_filter_simps)
next
  case (Cons l ls)
  show ?case
    by (cases "float_of_str (split l ! 1)"; cases "float_of_str (split l ! 2)";
        cases "float_of_str (split l ! 3)")
       (simp_all add: Cons.IH line_row_def Let_def map_filter_simps)
qed

lemmas float_eval = float_of_str_def split_sign_def strip_def is_space_def code_point_def lower_def
  parse_number_def not_exp_mark_def not_point_def is_digit_def digits_val_def digit_val_def Let_def

lemma split_ex1: "split ''Acme 80 70 90 extra'' = [''Acme'', ''80'', ''70'', ''90'', ''extra'']"
  by (simp add: split_def is_space_def code_point_def)
lemma split_ex2: "split ''Acme high low'' = [''Acme'', ''high'', ''low'']"
  by (simp add: split_def is_space_def code_point_def)
lemma split_ex3: "split ''Acme eighty 70 90'' = [''Acme'', ''eighty'', ''70'', ''90'']"
  by (simp add: split_def is_space_def code_point_def)
lemma float_80: "float_of_str ''80'' = Some (Fin 80)" by (simp add: float_eval)
lemma float_70: "float_of_str ''70'' = Some (Fin 70)" by (simp add: float_eval)
lemma float_90: "float_of_str ''90'' = Some (Fin 90)" by (simp add: float_eval)
lemma float_eighty: "float_of_str ''eighty'' = None" by (simp add: float_eval)

text \<open>
  Claim C5. The loop over the lines treats every line on its own, as the specification
  words it (\<open>line_row\<close>), and collects the rows in the order of the lines; so the rows
  of a text are the rows of its first lines followed by those of the remaining ones. The
  line "Acme 80 70 90 extra" gives the row (Acme, 80, 70, 90); "Acme high low" and
  "Acme eighty 70 90" give none.
\<close>

theorem pdf_lines:
  "extract_rows ls [] = List.map_filter line_row ls
   \<and> extract_rows (ls @ ls') [] = extract_rows ls [] @ extract_rows ls' []
   \<and> extract_rows [''Acme 80 70 90 extra''] [] = [(''Acme'', Fin 80, Fin 70, Fin 90)]
   \<and> extract_rows [''Acme high low''] [] = []
   \<and> extract_rows [''Acme eighty 70 90''] [] = []"
proof -
  have a: "extract_rows xs [] = List.map_filter line_row xs" for xs
    using extract_rows_acc [of xs "[]"] by simp
  have b: "extract_rows (ls @ ls') [] = extract_rows ls [] @ extract_rows ls' []"
    by (simp add: a map_filter_def)
  have c: "extract_rows [''Acme 80 70 90 extra''] [] = [(''Acme'', Fin 80, Fin 70, Fin 90)]"
    by (simp add: split_ex1 float_80 float_70 float_90)
  have d: "extract_rows [''Acme high low''] [] = []"
    by (simp add: split_ex2)
  have e: "extract_rows [''Acme eighty 70 90''] [] = []"
    by (simp add: split_ex3 float_eighty)
  from a b c d e show ?thesis by blast
qed

subsection \<open>The column normalizer\<close>

lemma is_space_lower: "is_space (lower_char c) = is_space c"
  by (cases c) (auto simp: is_space_def code_point_def Let_def)

lemma strip_lower: "strip (lower h) = lower (strip h)"
proof -
  have c: "is_space \<circ> lower_char = is_space" by (rule ext) (simp add: is_space_lower)
  show ?thesis
    by (simp add: strip_def lower_def dropWhile_map rev_map c)
qed

lemma fill_col_map_apply:
  "fill_col_map cs m h =
     (if h \<in> set cs \<and> canonical_name h \<noteq> None then canonical_name h else m h)"
  by (induction cs arbitrary: m) (auto split: option.splits)


lemma canonical_name_strip: "canonical_name (strip h) = spec_canonical h"
  by (simp add: canonical_name_def spec_canonical_def strip_lower)

lemma fill_col_map_member:
  "h \<in> set cs \<Longrightarrow> fill_col_map cs Map.empty h = canonical_name h"
  by (simp add: fill_col_map_apply)

lemma labels_normalize: "labels (normalize_columns raw) = map spec_label (labels raw)"
proof -
  have "fill_col_map (labels (strip_columns raw)) Map.empty (strip (fst p)) = spec_canonical (fst p)"
    if "p \<in> set raw" for p
  proof -
    have "strip (fst p) \<in> set (labels (strip_columns raw))"
      using that by (force simp: labels_def strip_columns_def)
    then show ?thesis by (simp add: fill_col_map_member canonical_name_strip)
  qed
  then show ?thesis
    by (auto simp: normalize_columns_def rename_def Let_def labels_def spec_label_def
        strip_columns_def o_def split: option.splits)
qed

lemma data_normalize: "map snd (normalize_columns raw) = map snd raw"
  by (simp add: normalize_columns_def rename_def strip_columns_def Let_def o_def)

lemma canonical_name_required: "s \<in> required \<Longrightarrow> canonical_name s = Some s"
  by (auto simp: required_def canonical_name_def lower_def code_point_def Let_def)

lemma unmapped_not_required: "spec_canonical h = None \<Longrightarrow> strip h \<notin> required"
  using canonical_name_required [of "strip h"] by (auto simp: canonical_name_strip)

lemma cols_project_absent: "k \<notin> set ks \<Longrightarrow> cols (project df ks) k = []"
  by (induction ks) (auto simp: cols_def project_def filter_empty_conv)

lemma filter_distinct_single: "distinct xs \<Longrightarrow> k \<in> set xs \<Longrightarrow> filter (\<lambda>x. x = k) xs = [k]"
  by (induction xs) (auto simp: filter_empty_conv)

lemma labels_filter: "labels (filter (\<lambda>p. fst p = k) df) = filter (\<lambda>x. x = k) (labels df)"
  by (simp add: labels_def filter_map o_def)

lemma labels_project_distinct:
  "distinct (labels df) \<Longrightarrow> set ks \<subseteq> set (labels df) \<Longrightarrow> labels (project df ks) = ks"
proof (induction ks)
  case Nil
  show ?case by (simp add: project_def labels_def)
next
  case (Cons k ks)
  have "labels (project df (k # ks)) = labels (filter (\<lambda>p. fst p = k) df) @ labels (project df ks)"
    by (simp add: project_def labels_def)
  with Cons show ?case by (simp add: labels_filter filter_distinct_single)
qed

lemma spec_label_examples:
  "map spec_label [''Env Score'', ''Soc'', ''Gov'', ''Company Name''] = [''E'', ''S'', ''G'', ''Company'']"
  by (simp add: spec_label_def spec_canonical_def lower_def strip_def is_space_def code_point_def Let_def)

text \<open>
  Claim C3. With \<open>req_list\<close> an enumeration of the four required names: every column
  keeps its data and gets the label the specification's rules give its header; a header
  that no rule matches keeps a label outside the required names and has no column in the
  projection; "Env Score", "Soc", "Gov", "Company Name" become E, S, G, Company; and a
  frame with these four headers in any order normalizes to the four canonical labels,
  passes the required-columns test and is projected to the columns \<open>req_list\<close>.
\<close>

theorem column_normalizer:
  assumes "distinct req_list" and "set req_list = required"
  shows "labels (normalize_columns raw) = map spec_label (labels raw)
    \<and> map snd (normalize_columns raw) = map snd raw
    \<and> (spec_canonical h = None \<longrightarrow>
         spec_label h \<notin> required \<and> cols (project (normalize_columns raw) req_list) (spec_label h) = [])
    \<and> map spec_label [''Env Score'', ''Soc'', ''Gov'', ''Company Name''] = [''E'', ''S'', ''G'', ''Company'']
    \<and> (mset (labels raw) = mset [''Env Score'', ''Soc'', ''Gov'', ''Company Name''] \<longrightarrow>
         mset (labels (normalize_columns raw)) = mset [''E'', ''S'', ''G'', ''Company'']
         \<and> required \<subseteq> set (labels (normalize_columns raw))
         \<and> labels (project (normalize_columns raw) req_list) = req_list)"
proof -
  have a: "spec_canonical h = None \<longrightarrow>
         spec_label h \<notin> required \<and> cols (project (normalize_columns raw) req_list) (spec_label h) = []"
  proof
    assume n: "spec_canonical h = None"
    then have "spec_label h = strip h" by (simp add: spec_label_def)
    moreover have "strip h \<notin> required" using n by (rule unmapped_not_required)
    ultimately show "spec_label h \<notin> required \<and>
        cols (project (normalize_columns raw) req_list) (spec_label h) = []"
      using assms(2) by (simp add: cols_project_absent)
  qed
  have b: "mset (labels raw) = mset [''Env Score'', ''Soc'', ''Gov'', ''Company Name''] \<longrightarrow>
         mset (labels (normalize_columns raw)) = mset [''E'', ''S'', ''G'', ''Company'']
         \<and> required \<subseteq> set (labels (normalize_columns raw))
         \<and> labels (project (normalize_columns raw) req_list) = req_list"
  proof
    assume p: "mset (labels raw) = mset [''Env Score'', ''Soc'', ''Gov'', ''Company Name'']"
    have "mset (labels (normalize_columns raw)) = image_mset spec_label (mset (labels raw))"
      by (simp add: labels_normalize)
    also have "\<dots> = mset (map spec_label [''Env Score'', ''Soc'', ''Gov'', ''Company Name''])"
      by (simp only: p mset_map)
    finally have m: "mset (labels (normalize_columns raw)) = mset [''E'', ''S'', ''G'', ''Company'']"
      by (simp only: spec_label_examples)
    have s: "set (labels (normalize_columns raw)) = required"
      using mset_eq_setD [OF m] by (auto simp: required_def)
    have d: "distinct (labels (normalize_columns raw))"
      using mset_eq_imp_distinct_iff [OF m] by simp
    show "mset (labels (normalize_columns raw)) = mset [''E'', ''S'', ''G'', ''Company'']
         \<and> required \<subseteq> set (labels (normalize_columns raw))
         \<and> labels (project (normalize_columns raw) req_list) = req_list"
      using m s d assms(2) by (simp add: labels_project_distinct)
  qed
  show ?thesis
    using labels_normalize [of raw] data_normalize [of raw] a spec_label_examples b by blast
qed

theorem column_normalizer_witness:
  "distinct [''E'', ''Company'', ''S'', ''G'']
   \<and> set [''E'', ''Company'', ''S'', ''G''] = required
   \<and> spec_canonical ''Notes'' = None
   \<and> mset (labels [(''Gov'', [Num (Fin 90)]), (''Company Name'', [Txt ''Acme'']),
                    (''Env Score'', [Num (Fin 80)]), (''Soc'', [Num (Fin 70)])])
       = mset [''Env Score'', ''Soc'', ''Gov'', ''Company Name'']
   \<and> labels (normalize_columns [(''Gov'', [Num (Fin 90)]), (''Company Name'', [Txt ''Acme'']),
                    (''Env Score'', [Num (Fin 80)]), (''Soc'', [Num (Fin 70)])])
       = [''G'', ''Company'', ''E'', ''S'']
   \<and> spec_label ''Notes'' \<notin> required
   \<and> labels (project (normalize_columns [(''Gov'', [Num (Fin 90)]), (''Company Name'', [Txt ''Acme'']),
                    (''Env Score'', [Num (Fin 80)]), (''Soc'', [Num (Fin 70)])])
               [''E'', ''Company'', ''S'', ''G''])
       = [''E'', ''Company'', ''S'', ''G'']"
proof -
  have d: "distinct [''E'', ''Company'', ''S'', ''G'']" by simp
  have r: "set [''E'', ''Company'', ''S'', ''G''] = required" by (auto simp: required_def)
  have n: "spec_canonical ''Notes'' = None"
    by (simp add: spec_canonical_def lower_def strip_def is_space_def code_point_def Let_def)
  have m: "mset (labels [(''Gov'', [Num (Fin 90)]), (''Company Name'', [Txt ''Acme'']),
                    (''Env Score'', [Num (Fin 80)]), (''Soc'', [Num (Fin 70)])])
       = mset [''Env Score'', ''Soc'', ''Gov'', ''Company Name'']"
    by (simp add: labels_def)
  have l: "map spec_label [''Gov'', ''Company Name'', ''Env Score'', ''Soc''] = [''G'', ''Company'', ''E'', ''S'']"
    using spec_label_examples by simp
  show ?thesis
    using column_normalizer [OF d r, of "[(''Gov'', [Num (Fin 90)]), (''Company Name'', [Txt ''Acme'']),
                    (''Env Score'', [Num (Fin 80)]), (''Soc'', [Num (Fin 70)])]" "''Notes''"] d r n m l
    by (simp add: labels_def)
qed

subsection \<open>The score evaluator\<close>

lemma those_map_Some:
  "those (map f xs) = Some ys \<Longrightarrow> length ys = length xs \<and> (\<forall>i<length xs. f (xs ! i) = Some (ys ! i))"
  by (induction xs arbitrary: ys) (auto split: option.splits nat.splits simp: nth_Cons)

lemma those_map_all:
  "(\<And>x. x \<in> set xs \<Longrightarrow> f x = Some (g x)) \<Longrightarrow> those (map f xs) = Some (map g xs)"
  by (induction xs) auto

lemma series_add_Some:
  assumes "series_add xs ys = Some zs"
  shows "length zs = min (length xs) (length ys)"
    and "i < length zs \<Longrightarrow> cell_add (xs ! i) (ys ! i) = Some (zs ! i)"
proof -
  have t: "those (map2 cell_add xs ys) = Some zs"
    using assms by (simp add: series_add_def)
  from those_map_Some [OF t] show "length zs = min (length xs) (length ys)" by simp
  from those_map_Some [OF t] show "i < length zs \<Longrightarrow> cell_add (xs ! i) (ys ! i) = Some (zs ! i)"
    by auto
qed

lemma series_div_Some:
  assumes "series_div xs k = Some zs"
  shows "length zs = length xs" and "i < length zs \<Longrightarrow> cell_div k (xs ! i) = Some (zs ! i)"
  using those_map_Some [of "cell_div k" xs zs] assms by (auto simp: series_div_def)

lemma series_round1_Some:
  assumes "series_round1 xs = Some zs"
  shows "length zs = length xs" and "i < length zs \<Longrightarrow> cell_round1 (xs ! i) = Some (zs ! i)"
  using those_map_Some [of cell_round1 xs zs] assms by (auto simp: series_round1_def)

lemma row_chain:
  "cell_add a b = Some x \<Longrightarrow> cell_add x c = Some y \<Longrightarrow> cell_div 3 y = Some z \<Longrightarrow>
   cell_round1 z = Some w \<Longrightarrow>
   \<exists>e s g. a = Num e \<and> b = Num s \<and> c = Num g \<and> w = Num (esg_score e s g)"
  by (cases a; cases b; cases c) (auto simp: esg_score_def)

lemma cols_append: "cols (a @ b) k = cols a k @ cols b k"
  by (simp add: cols_def)

lemma cols_absent: "k \<notin> set (labels d) \<Longrightarrow> cols d k = []"
  by (auto simp: cols_def labels_def filter_empty_conv)

lemma getitem_new: "k \<notin> set (labels d) \<Longrightarrow> getitem (d @ [(k, v)]) k = Some v"
  by (simp add: getitem_def cols_append cols_absent) (simp add: cols_def)

lemma getitem_old: "k \<noteq> k' \<Longrightarrow> getitem (d @ [(k', v)]) k = getitem d k"
  by (simp add: getitem_def cols_append) (simp add: cols_def)

lemma setitem_new: "k \<notin> set (labels d) \<Longrightarrow> setitem d k v = d @ [(k, v)]"
  by (simp add: setitem_def)

lemma score_steps:
  assumes s: "set_esg_score d = Some d2"
    and n1: "''ESG Score'' \<notin> set (labels d)" and n2: "''Risk'' \<notin> set (labels d)"
  shows "\<exists>t. set_risk d2 = Some t \<and> scored_table d t"
proof -
  from s obtain es ss gs x y z sc where
    e: "getitem d ''E'' = Some es" and s': "getitem d ''S'' = Some ss"
    and g: "getitem d ''G'' = Some gs"
    and x: "series_add es ss = Some x" and y: "series_add x gs = Some y"
    and z: "series_div y 3 = Some z" and w: "series_round1 z = Some sc"
    and d2: "d2 = setitem d ''ESG Score'' sc"
    by (auto simp: set_esg_score_def split: Option.bind_splits)
  have len: "length sc = min (length es) (min (length ss) (length gs))"
    using series_add_Some(1) [OF x] series_add_Some(1) [OF y] series_div_Some(1) [OF z]
      series_round1_Some(1) [OF w] by (simp add: min.assoc)
  have row: "\<exists>e s g. es ! i = Num e \<and> ss ! i = Num s \<and> gs ! i = Num g \<and> sc ! i = Num (esg_score e s g)"
    if "i < length sc" for i
  proof -
    have iz: "i < length z" using that series_round1_Some(1) [OF w] by simp
    have iy: "i < length y" using iz series_div_Some(1) [OF z] by simp
    have ix: "i < length x" using iy series_add_Some(1) [OF y] by simp
    show ?thesis
      using row_chain [OF series_add_Some(2) [OF x ix] series_add_Some(2) [OF y iy]
          series_div_Some(2) [OF z iz] series_round1_Some(2) [OF w that]] .
  qed
  define rk where "rk = map (\<lambda>c. case c of Num v \<Rightarrow> Txt (risk v) | Txt u \<Rightarrow> Txt u) sc"
  have num: "\<exists>v. c = Num v" if "c \<in> set sc" for c
    using that row by (auto simp: in_set_conv_nth)
  have th: "those (map cell_risk sc) = Some rk"
    unfolding rk_def
  proof (rule those_map_all)
    fix c assume "c \<in> set sc"
    then obtain v where "c = Num v" using num by blast
    then show "cell_risk c = Some (case c of Num v \<Rightarrow> Txt (risk v) | Txt u \<Rightarrow> Txt u)"
      by simp
  qed
  have d2': "d2 = d @ [(''ESG Score'', sc)]" using d2 n1 by (simp add: setitem_new)
  have lab: "''Risk'' \<notin> set (labels d2)" using n2 by (simp add: d2' labels_def)
  have sr: "set_risk d2 = Some (d @ [(''ESG Score'', sc), (''Risk'', rk)])"
    using th lab by (simp add: set_risk_def d2' getitem_new [OF n1] setitem_new [unfolded d2'])
  have rrow: "\<exists>e s g. es ! i = Num e \<and> ss ! i = Num s \<and> gs ! i = Num g
      \<and> sc ! i = Num (esg_score e s g) \<and> rk ! i = Txt (risk (esg_score e s g))"
    if "i < length sc" for i
    using row [OF that] that by (auto simp: rk_def)
  have pv: "set_esg_score d \<bind> set_risk = Some (d @ [(''ESG Score'', sc), (''Risk'', rk)])"
    using s sr by simp
  have "\<exists>es ss gs sc' rk'.
        getitem d ''E'' = Some es \<and> getitem d ''S'' = Some ss \<and> getitem d ''G'' = Some gs
        \<and> d @ [(''ESG Score'', sc), (''Risk'', rk)] = d @ [(''ESG Score'', sc'), (''Risk'', rk')]
        \<and> length sc' = min (length es) (min (length ss) (length gs))
        \<and> length rk' = length sc'
        \<and> (\<forall>i<length sc'. \<exists>e s g. es ! i = Num e \<and> ss ! i = Num s \<and> gs ! i = Num g
               \<and> sc' ! i = Num (esg_score e s g) \<and> rk' ! i = Txt (risk (esg_score e s g)))"
    using e s' g len rrow by (auto simp: rk_def)
  with pv have "scored_table d (d @ [(''ESG Score'', sc), (''Risk'', rk)])"
    unfolding scored_table_def by blast
  with sr show ?thesis by blast
qed

subsection \<open>The three source paths\<close>

lemma required_labels:
  "''ESG Score'' \<notin> required" "''Risk'' \<notin> required"
  "''E'' \<in> required" "''S'' \<in> required" "''G'' \<in> required" "''Company'' \<in> required"
  by (simp_all add: required_def)

lemma sample_labels: "set (labels sample_data) = required"
  by (auto simp: sample_data_def labels_def required_def)

lemma sample_scored: "\<exists>t. sample_df = Some t \<and> scored_table sample_data t"
proof -
  have n: "''ESG Score'' \<notin> set (labels sample_data)" "''Risk'' \<notin> set (labels sample_data)"
    by (simp_all add: sample_labels required_labels)
  from score_steps [OF sample_esg_score n] show ?thesis
    by (simp add: sample_df_def sample_esg_score)
qed

lemma series_add_rows:
  "series_add (map (\<lambda>r. Num (a r)) rows) (map (\<lambda>r. Num (b r)) rows)
     = Some (map (\<lambda>r. Num (fadd (a r) (b r))) rows)"
  by (induction rows) (simp_all add: series_add_def)

lemma series_div_rows:
  "series_div (map (\<lambda>r. Num (a r)) rows) k = Some (map (\<lambda>r. Num (fdiv (a r) k)) rows)"
  by (induction rows) (simp_all add: series_div_def)

lemma series_round1_rows:
  "series_round1 (map (\<lambda>r. Num (a r)) rows) = Some (map (\<lambda>r. Num (fround1 (a r))) rows)"
  by (induction rows) (simp_all add: series_round1_def)

lemma frame_of_rows_labels: "set (labels (frame_of_rows rows)) = required"
  by (auto simp: frame_of_rows_def labels_def required_def)

lemma frame_of_rows_score: "set_esg_score (frame_of_rows rows) \<noteq> None"
proof -
  have g: "getitem (frame_of_rows rows) ''E'' = Some (map (\<lambda>r. Num (fst (snd r))) rows)"
    "getitem (frame_of_rows rows) ''S'' = Some (map (\<lambda>r. Num (fst (snd (snd r)))) rows)"
    "getitem (frame_of_rows rows) ''G'' = Some (map (\<lambda>r. Num (snd (snd (snd r)))) rows)"
    by (simp_all add: frame_of_rows_def getitem_def cols_def)
  show ?thesis
    by (simp add: set_esg_score_def g series_add_rows series_div_rows series_round1_rows)
qed

lemma pdf_upload_none:
  "extract_rows (splitlines (pdf_text pages)) [] = [] \<Longrightarrow>
   pdf_upload (PdfPages pages) df = ([Preview (take 500 (pdf_text pages)), NoTableInPdf], df)"
  by (simp add: pdf_upload_def Let_def)

lemma pdf_upload_rows:
  assumes "extract_rows (splitlines (pdf_text pages)) [] \<noteq> []"
  shows "\<exists>t. pdf_upload (PdfPages pages) df = ([Preview (take 500 (pdf_text pages)), PdfExtracted], t)
     \<and> scored_table (frame_of_rows (extract_rows (splitlines (pdf_text pages)) [])) t"
proof -
  let ?d = "frame_of_rows (extract_rows (splitlines (pdf_text pages)) [])"
  obtain d2 where d2: "set_esg_score ?d = Some d2" using frame_of_rows_score by blast
  have n: "''ESG Score'' \<notin> set (labels ?d)" "''Risk'' \<notin> set (labels ?d)"
    by (simp_all add: frame_of_rows_labels required_labels)
  from score_steps [OF d2 n] obtain t where "set_risk d2 = Some t" "scored_table ?d t" by blast
  then show ?thesis using assms d2 by (simp add: pdf_upload_def Let_def)
qed

lemma labels_project: "set (labels (project d ks)) = set ks \<inter> set (labels d)"
  by (induction ks) (auto simp: project_def labels_def)

lemma csv_upload_none: "csv_upload req_list None df = ([CsvReadError], df)"
  by (simp add: csv_upload_def)

lemma csv_upload_missing:
  "\<not> required \<subseteq> set (labels (normalize_columns raw)) \<Longrightarrow>
   csv_upload req_list (Some raw) df
     = ([MissingColumns (required - set (labels (normalize_columns raw)))], df)"
  by (simp add: csv_upload_def Let_def)

lemma csv_upload_found:
  assumes r: "set req_list = required"
    and s: "required \<subseteq> set (labels (normalize_columns raw))"
  shows "(\<exists>t. csv_upload req_list (Some raw) df = ([CsvLoaded], t)
            \<and> scored_table (project (normalize_columns raw) req_list) t)
       \<or> (csv_upload req_list (Some raw) df = ([CsvReadError], project (normalize_columns raw) req_list)
            \<and> set_esg_score (project (normalize_columns raw) req_list) = None)"
proof (cases "set_esg_score (project (normalize_columns raw) req_list)")
  case None
  then show ?thesis using s by (simp add: csv_upload_def Let_def)
next
  case (Some d2)
  have l: "set (labels (project (normalize_columns raw) req_list)) = required"
    using r s by (auto simp: labels_project)
  have n: "''ESG Score'' \<notin> set (labels (project (normalize_columns raw) req_list))"
    "''Risk'' \<notin> set (labels (project (normalize_columns raw) req_list))"
    by (simp_all add: l required_labels)
  from score_steps [OF Some n] obtain t where "set_risk d2 = Some t"
    "scored_table (project (normalize_columns raw) req_list) t" by blast
  then show ?thesis using s Some by (simp add: csv_upload_def Let_def)
qed

lemma csv_project_labels:
  "set req_list = required \<Longrightarrow> required \<subseteq> set (labels (normalize_columns raw)) \<Longrightarrow>
   set (labels (project (normalize_columns raw) req_list)) = required"
  by (auto simp: labels_project)

text \<open>
  Every execution reaches the layout. Its table is a frame with the required labels
  extended by the two derived columns, except when line 70 or 71 of the CSV branch raises:
  then the table is the projection of line 69, without derived columns.
\<close>

lemma run_result:
  assumes r: "set req_list = required"
  shows "\<exists>ns t. run req_list m file = Some (ns, t)
     \<and> ((\<exists>d. set (labels d) = required \<and> scored_table d t)
        \<or> (CsvReadError \<in> set ns \<and> set (labels t) = required))"
proof -
  obtain s where s: "sample_df = Some s" "scored_table sample_data s"
    using sample_scored by blast
  have base: "\<exists>d. set (labels d) = required \<and> scored_table d s"
    using s(2) sample_labels by blast
  show ?thesis
  proof (cases m)
    case UseSampleData
    then show ?thesis using base by (simp add: run_def s(1))
  next
    case UploadReport
    show ?thesis
    proof (cases "file")
      case None
      then show ?thesis using UploadReport base by (simp add: run_def s(1))
    next
      case (Some u)
      show ?thesis
      proof (cases u)
        case OtherFile
        then show ?thesis using UploadReport Some base by (simp add: run_def s(1))
      next
        case (PdfFile src)
        show ?thesis
        proof (cases src)
          case PyPDF2Missing
          then show ?thesis using UploadReport Some PdfFile base
            by (simp add: run_def s(1) pdf_upload_def)
        next
          case PdfUnreadable
          then show ?thesis using UploadReport Some PdfFile base
            by (simp add: run_def s(1) pdf_upload_def)
        next
          case (PdfPages pages)
          show ?thesis
          proof (cases "extract_rows (splitlines (pdf_text pages)) [] = []")
            case True
            then show ?thesis using UploadReport Some PdfFile PdfPages base
              by (simp add: run_def s(1) pdf_upload_none)
          next
            case False
            from pdf_upload_rows [OF False, of s] obtain t where
              "pdf_upload (PdfPages pages) s = ([Preview (take 500 (pdf_text pages)), PdfExtracted], t)"
              "scored_table (frame_of_rows (extract_rows (splitlines (pdf_text pages)) [])) t"
              by blast
            then show ?thesis using UploadReport Some PdfFile PdfPages frame_of_rows_labels
              by (auto simp: run_def s(1))
          qed
        qed
      next
        case (CsvFile parsed)
        show ?thesis
        proof (cases parsed)
          case None
          then show ?thesis using UploadReport Some CsvFile base
            by (simp add: run_def s(1) csv_upload_none)
        next
          case (Some raw)
          show ?thesis
          proof (cases "required \<subseteq> set (labels (normalize_columns raw))")
            case False
            then show ?thesis using UploadReport \<open>file = Some u\<close> CsvFile Some base
              by (simp add: run_def s(1) csv_upload_missing)
          next
            case True
            from csv_upload_found [OF r True, of s] csv_project_labels [OF r True]
            show ?thesis using UploadReport \<open>file = Some u\<close> CsvFile Some
              by (auto simp: run_def s(1))
          qed
        qed
      qed
    qed
  qed
qed

lemma cols_scored:
  "cols (d @ [(''ESG Score'', sc), (''Risk'', rk)]) k
     = cols d k @ (if k = ''ESG Score'' then [sc] else if k = ''Risk'' then [rk] else [])"
  by (simp add: cols_def)

lemma getitem_scored:
  assumes "set (labels d) = required"
  shows "getitem (d @ [(''ESG Score'', sc), (''Risk'', rk)]) ''ESG Score'' = Some sc"
    and "getitem (d @ [(''ESG Score'', sc), (''Risk'', rk)]) ''Risk'' = Some rk"
    and "k \<in> required \<Longrightarrow> getitem (d @ [(''ESG Score'', sc), (''Risk'', rk)]) k = getitem d k"
  using assms required_labels by (auto simp: getitem_def cols_scored cols_absent)

lemma getitem_absent: "k \<notin> set (labels d) \<Longrightarrow> getitem d k = None"
  by (simp add: getitem_def cols_absent)

subsection \<open>Scores and risk tiers of the active table\<close>

lemma entry_scored:
  assumes l: "set (labels d) = required" and t: "scored_table d t"
  shows "entry t ''ESG Score'' i = Some x \<Longrightarrow>
           \<exists>e s g. entry t ''E'' i = Some (Num e) \<and> entry t ''S'' i = Some (Num s)
             \<and> entry t ''G'' i = Some (Num g) \<and> x = Num (esg_score e s g)"
    and "entry t ''Risk'' i = Some y \<Longrightarrow>
           \<exists>v. entry t ''ESG Score'' i = Some (Num v) \<and> y = Txt (risk v)"
    and "\<exists>es ss gs sc rk. getitem t ''E'' = Some es \<and> getitem t ''S'' = Some ss
           \<and> getitem t ''G'' = Some gs \<and> getitem t ''ESG Score'' = Some sc
           \<and> getitem t ''Risk'' = Some rk
           \<and> length sc = min (length es) (min (length ss) (length gs)) \<and> length rk = length sc"
proof -
  from t obtain es ss gs sc rk where
    e: "getitem d ''E'' = Some es" and s: "getitem d ''S'' = Some ss"
    and g: "getitem d ''G'' = Some gs"
    and tt: "t = d @ [(''ESG Score'', sc), (''Risk'', rk)]"
    and len: "length sc = min (length es) (min (length ss) (length gs))"
    and lr: "length rk = length sc"
    and row: "\<And>i. i < length sc \<Longrightarrow> \<exists>e s g. es ! i = Num e \<and> ss ! i = Num s \<and> gs ! i = Num g
               \<and> sc ! i = Num (esg_score e s g) \<and> rk ! i = Txt (risk (esg_score e s g))"
    unfolding scored_table_def by blast
  have ge: "getitem t ''E'' = Some es" "getitem t ''S'' = Some ss" "getitem t ''G'' = Some gs"
    using e s g by (simp_all add: tt getitem_scored(3) [OF l] required_labels)
  have gs': "getitem t ''ESG Score'' = Some sc" "getitem t ''Risk'' = Some rk"
    by (simp_all add: tt getitem_scored(1,2) [OF l])
  show "\<exists>es ss gs sc rk. getitem t ''E'' = Some es \<and> getitem t ''S'' = Some ss
           \<and> getitem t ''G'' = Some gs \<and> getitem t ''ESG Score'' = Some sc
           \<and> getitem t ''Risk'' = Some rk
           \<and> length sc = min (length es) (min (length ss) (length gs)) \<and> length rk = length sc"
    using ge gs' len lr by blast
  show "\<exists>e s g. entry t ''E'' i = Some (Num e) \<and> entry t ''S'' i = Some (Num s)
             \<and> entry t ''G'' i = Some (Num g) \<and> x = Num (esg_score e s g)"
    if "entry t ''ESG Score'' i = Some x"
  proof -
    have i: "i < length sc" and x: "x = sc ! i"
      using that by (auto simp: entry_def gs' split: if_splits)
    from row [OF i] i len x show ?thesis by (auto simp: entry_def ge)
  qed
  show "\<exists>v. entry t ''ESG Score'' i = Some (Num v) \<and> y = Txt (risk v)"
    if "entry t ''Risk'' i = Some y"
  proof -
    have i: "i < length sc" and y: "y = rk ! i"
      using that lr by (auto simp: entry_def gs' split: if_splits)
    from row [OF i] i y show ?thesis by (auto simp: entry_def gs')
  qed
qed

lemma entry_unscored:
  assumes "set (labels t) = required"
  shows "entry t ''ESG Score'' i = None" and "entry t ''Risk'' i = None"
  using assms by (simp_all add: entry_def getitem_absent required_labels)

lemma risk_values: "risk x = ''Low'' \<or> risk x = ''Medium'' \<or> risk x = ''High''"
  by (simp add: risk_def)

lemma risk_low: "risk x = ''Low'' \<longleftrightarrow> fge x 80"
  by (simp add: risk_def)

lemma risk_medium: "risk x = ''Medium'' \<longleftrightarrow> fge x 60 \<and> flt x 80"
  by (cases x) (auto simp: risk_def)

lemma risk_high: "risk x = ''High'' \<longleftrightarrow> flt x 60 \<or> x = NaN"
  by (cases x) (auto simp: risk_def)

text \<open>
  Claim C2, as amended. Every entry of the Risk column is the tier of the ESG Score of
  its row, where the tier is Low exactly for a score of at least 80, Medium exactly for a
  score of at least 60 and below 80, and High exactly for a score below 60 or a score
  that is NaN. The scores 80, 60 and 59.9 get Low, Medium and High.
\<close>

theorem risk_tiers:
  assumes "set req_list = required" and "run req_list m file = Some (ns, t)"
  shows "(\<forall>i y. entry t ''Risk'' i = Some y \<longrightarrow>
             (\<exists>v. entry t ''ESG Score'' i = Some (Num v) \<and> y = Txt (risk v)))
       \<and> (\<forall>x. (risk x = ''Low'' \<longleftrightarrow> fge x 80)
             \<and> (risk x = ''Medium'' \<longleftrightarrow> fge x 60 \<and> flt x 80)
             \<and> (risk x = ''High'' \<longleftrightarrow> flt x 60 \<or> x = NaN))
       \<and> risk (Fin 80) = ''Low'' \<and> risk (Fin 60) = ''Medium'' \<and> risk (Fin 59.9) = ''High''"
proof -
  from run_result [OF assms(1), of m "file"] assms(2)
  consider d where "set (labels d) = required" "scored_table d t"
    | "CsvReadError \<in> set ns" "set (labels t) = required"
    by auto
  then have a: "\<forall>i y. entry t ''Risk'' i = Some y \<longrightarrow>
             (\<exists>v. entry t ''ESG Score'' i = Some (Num v) \<and> y = Txt (risk v))"
  proof cases
    case 1
    from entry_scored(2) [OF 1] show ?thesis by blast
  next
    case 2
    then show ?thesis by (simp add: entry_unscored)
  qed
  have b: "risk (Fin 80) = ''Low'' \<and> risk (Fin 60) = ''Medium'' \<and> risk (Fin 59.9) = ''High''"
    by (simp add: risk_def)
  from a b risk_low risk_medium risk_high show ?thesis by blast
qed

lemma required_enum: "set [''Company'', ''E'', ''S'', ''G''] = required"
  by (auto simp: required_def)

lemma run_sample_mode:
  "run req_list UseSampleData file = Some ([],
     [(''Company'', [Txt ''Tesla'', Txt ''Apple'', Txt ''Microsoft'', Txt ''Amazon'', Txt ''Google'']),
      (''E'', [Num (Fin 75), Num (Fin 85), Num (Fin 92), Num (Fin 70), Num (Fin 88)]),
      (''S'', [Num (Fin 65), Num (Fin 90), Num (Fin 88), Num (Fin 60), Num (Fin 80)]),
      (''G'', [Num (Fin 78), Num (Fin 89), Num (Fin 91), Num (Fin 73), Num (Fin 87)]),
      (''ESG Score'', [Num (Fin 72.7), Num (Fin 88), Num (Fin 90.3), Num (Fin 67.7), Num (Fin 85)]),
      (''Risk'', [Txt ''Medium'', Txt ''Low'', Txt ''Low'', Txt ''Medium'', Txt ''Low''])])"
  by (simp add: run_def sample_df_eq)

theorem risk_tiers_witness:
  "set [''Company'', ''E'', ''S'', ''G''] = required
   \<and> (\<exists>t. run [''Company'', ''E'', ''S'', ''G''] UseSampleData None = Some ([], t)
        \<and> entry t ''Risk'' 0 = Some (Txt ''Medium'')
        \<and> (\<exists>v. entry t ''ESG Score'' 0 = Some (Num v) \<and> Txt ''Medium'' = Txt (risk v)))"
proof -
  let ?t = "[(''Company'', [Txt ''Tesla'', Txt ''Apple'', Txt ''Microsoft'', Txt ''Amazon'', Txt ''Google'']),
      (''E'', [Num (Fin 75), Num (Fin 85), Num (Fin 92), Num (Fin 70), Num (Fin 88)]),
      (''S'', [Num (Fin 65), Num (Fin 90), Num (Fin 88), Num (Fin 60), Num (Fin 80)]),
      (''G'', [Num (Fin 78), Num (Fin 89), Num (Fin 91), Num (Fin 73), Num (Fin 87)]),
      (''ESG Score'', [Num (Fin 72.7), Num (Fin 88), Num (Fin 90.3), Num (Fin 67.7), Num (Fin 85)]),
      (''Risk'', [Txt ''Medium'', Txt ''Low'', Txt ''Low'', Txt ''Medium'', Txt ''Low''])]"
  have rn: "run [''Company'', ''E'', ''S'', ''G''] UseSampleData None = Some ([], ?t)"
    by (rule run_sample_mode)
  have en: "entry ?t ''Risk'' 0 = Some (Txt ''Medium'')"
    by (simp add: entry_def getitem_def cols_def)
  from risk_tiers [OF required_enum rn] en
  have "\<exists>v. entry ?t ''ESG Score'' 0 = Some (Num v) \<and> Txt ''Medium'' = Txt (risk v)"
    by blast
  with required_enum rn en show ?thesis by blast
qed

text \<open>
  Claim C2 as stated fails on a row whose score is NaN: the PDF line "Acme nan 70 90"
  parses (\<open>float("nan")\<close> is a float), its score is NaN, its tier is High, and NaN is
  not below 60.
\<close>

lemma float_nan: "float_of_str ''nan'' = Some NaN"
  by (simp add: float_eval)

lemma nan_line_rows:
  "extract_rows (splitlines (pdf_text [''Acme nan 70 90''])) [] = [(''Acme'', NaN, Fin 70, Fin 90)]"
proof -
  have sp: "splitlines ''Acme nan 70 90'' = [''Acme nan 70 90'']"
    by (simp add: splitlines_def is_linebreak_def code_point_def)
  have tok: "split ''Acme nan 70 90'' = [''Acme'', ''nan'', ''70'', ''90'']"
    by (simp add: split_def is_space_def code_point_def)
  show ?thesis
    by (simp add: pdf_text_def sp tok float_nan float_70 float_90)
qed

lemma nan_line_upload:
  "pdf_upload (PdfPages [''Acme nan 70 90'']) df =
     ([Preview ''Acme nan 70 90'', PdfExtracted],
      [(''Company'', [Txt ''Acme'']), (''E'', [Num NaN]), (''S'', [Num (Fin 70)]),
       (''G'', [Num (Fin 90)]), (''ESG Score'', [Num NaN]), (''Risk'', [Txt ''High''])])"
  by (simp add: pdf_upload_def nan_line_rows Let_def frame_of_rows_def set_esg_score_def
      set_risk_def getitem_def cols_def series_add_def series_div_def series_round1_def
      setitem_def labels_def risk_def)
     (simp add: pdf_text_def)

theorem risk_high_counterexample:
  "run [''Company'', ''E'', ''S'', ''G''] UploadReport (Some (PdfFile (PdfPages [''Acme nan 70 90'']))) =
     Some ([Uploaded, Preview ''Acme nan 70 90'', PdfExtracted],
      [(''Company'', [Txt ''Acme'']), (''E'', [Num NaN]), (''S'', [Num (Fin 70)]),
       (''G'', [Num (Fin 90)]), (''ESG Score'', [Num NaN]), (''Risk'', [Txt ''High''])])
   \<and> \<not> flt NaN 60"
  by (simp add: run_def sample_df_eq nan_line_upload)

subsection \<open>Uploads evaluated\<close>

lemmas norm_eval = normalize_columns_def strip_columns_def labels_def rename_def canonical_name_def
  strip_def lower_def is_space_def code_point_def Let_def

lemmas score_eval = set_esg_score_def set_risk_def getitem_def cols_def series_add_def
  series_div_def series_round1_def setitem_def labels_def risk_def rint_def Let_def

lemma good_csv_normalized:
  "normalize_columns [(''Company'', [Txt ''Acme'']), (''E'', [Num (Fin 80)]),
                      (''S'', [Num (Fin 70)]), (''G'', [Num (Fin 90)])]
   = [(''Company'', [Txt ''Acme'']), (''E'', [Num (Fin 80)]),
      (''S'', [Num (Fin 70)]), (''G'', [Num (Fin 90)])]"
  by (simp add: norm_eval)

lemma swapped_csv_normalized:
  "normalize_columns [(''E'', [Num (Fin 80)]), (''Company'', [Txt ''Acme'']),
                      (''S'', [Num (Fin 70)]), (''G'', [Num (Fin 90)])]
   = [(''E'', [Num (Fin 80)]), (''Company'', [Txt ''Acme'']),
      (''S'', [Num (Fin 70)]), (''G'', [Num (Fin 90)])]"
  by (simp add: norm_eval)

lemma bad_csv_normalized:
  "normalize_columns [(''Company'', [Txt ''Acme'']), (''E'', [Num (Fin 80)]),
                      (''S'', [Num (Fin 70)])]
   = [(''Company'', [Txt ''Acme'']), (''E'', [Num (Fin 80)]), (''S'', [Num (Fin 70)])]"
  by (simp add: norm_eval)

lemma text_csv_normalized:
  "normalize_columns [(''Company'', [Txt ''Acme'']), (''E'', [Txt ''high'']),
                      (''S'', [Num (Fin 70)]), (''G'', [Num (Fin 90)])]
   = [(''Company'', [Txt ''Acme'']), (''E'', [Txt ''high'']),
      (''S'', [Num (Fin 70)]), (''G'', [Num (Fin 90)])]"
  by (simp add: norm_eval)

lemma text2_csv_normalized:
  "normalize_columns [(''Company'', [Txt ''Acme'', Txt ''Bolt'']),
                      (''E'', [Num (Fin 80), Num (Fin 55)]),
                      (''S'', [Txt ''70'', Txt ''low'']),
                      (''G'', [Num (Fin 90), Num (Fin 60)])]
   = [(''Company'', [Txt ''Acme'', Txt ''Bolt'']),
      (''E'', [Num (Fin 80), Num (Fin 55)]),
      (''S'', [Txt ''70'', Txt ''low'']),
      (''G'', [Num (Fin 90), Num (Fin 60)])]"
  by (simp add: norm_eval)

lemma good_csv_upload:
  "csv_upload [''Company'', ''E'', ''S'', ''G'']
     (Some [(''Company'', [Txt ''Acme'']), (''E'', [Num (Fin 80)]),
            (''S'', [Num (Fin 70)]), (''G'', [Num (Fin 90)])]) df
   = ([CsvLoaded],
      [(''Company'', [Txt ''Acme'']), (''E'', [Num (Fin 80)]), (''S'', [Num (Fin 70)]),
       (''G'', [Num (Fin 90)]), (''ESG Score'', [Num (Fin 80)]), (''Risk'', [Txt ''Low''])])"
  by (simp add: csv_upload_def good_csv_normalized required_def project_def score_eval)

lemma good_csv_upload_reordered:
  "csv_upload [''E'', ''Company'', ''S'', ''G'']
     (Some [(''Company'', [Txt ''Acme'']), (''E'', [Num (Fin 80)]),
            (''S'', [Num (Fin 70)]), (''G'', [Num (Fin 90)])]) df
   = ([CsvLoaded],
      [(''E'', [Num (Fin 80)]), (''Company'', [Txt ''Acme'']), (''S'', [Num (Fin 70)]),
       (''G'', [Num (Fin 90)]), (''ESG Score'', [Num (Fin 80)]), (''Risk'', [Txt ''Low''])])"
  by (simp add: csv_upload_def good_csv_normalized required_def project_def score_eval)

lemma text_csv_upload:
  "csv_upload [''Company'', ''E'', ''S'', ''G'']
     (Some [(''Company'', [Txt ''Acme'']), (''E'', [Txt ''high'']),
            (''S'', [Num (Fin 70)]), (''G'', [Num (Fin 90)])]) df
   = ([CsvReadError],
      [(''Company'', [Txt ''Acme'']), (''E'', [Txt ''high'']), (''S'', [Num (Fin 70)]),
       (''G'', [Num (Fin 90)])])"
  by (simp add: csv_upload_def text_csv_normalized required_def project_def score_eval)

lemma text2_csv_upload:
  "csv_upload [''Company'', ''E'', ''S'', ''G'']
     (Some [(''Company'', [Txt ''Acme'', Txt ''Bolt'']),
            (''E'', [Num (Fin 80), Num (Fin 55)]),
            (''S'', [Txt ''70'', Txt ''low'']),
            (''G'', [Num (Fin 90), Num (Fin 60)])]) df
   = ([CsvReadError],
      [(''Company'', [Txt ''Acme'', Txt ''Bolt'']),
       (''E'', [Num (Fin 80), Num (Fin 55)]),
       (''S'', [Txt ''70'', Txt ''low'']),
       (''G'', [Num (Fin 90), Num (Fin 60)])])"
  by (simp add: csv_upload_def text2_csv_normalized required_def project_def score_eval)

lemma bad_csv_missing:
  "required - set (labels [(''Company'', [Txt ''Acme'']), (''E'', [Num (Fin 80)]),
          (''S'', [Num (Fin 70)])]) = {''G''}"
  by (auto simp: required_def labels_def)

lemma bad_csv_upload:
  "csv_upload req_list
     (Some [(''Company'', [Txt ''Acme'']), (''E'', [Num (Fin 80)]), (''S'', [Num (Fin 70)])]) df
   = ([MissingColumns {''G''}], df)"
  using bad_csv_missing
  by (simp add: csv_upload_def bad_csv_normalized Let_def) (simp add: required_def labels_def)

lemma no_rows_line:
  "extract_rows (splitlines (pdf_text [''Acme high low''])) [] = []"
proof -
  have sp: "splitlines ''Acme high low'' = [''Acme high low'']"
    by (simp add: splitlines_def is_linebreak_def code_point_def)
  show ?thesis by (simp add: pdf_text_def sp split_ex2)
qed

lemma no_rows_upload:
  "pdf_upload (PdfPages [''Acme high low'']) df = ([Preview ''Acme high low'', NoTableInPdf], df)"
  using pdf_upload_none [OF no_rows_line, of df] by (simp add: pdf_text_def)

lemma one_row_line:
  "extract_rows (splitlines (pdf_text [''Acme 80 70 90''])) [] = [(''Acme'', Fin 80, Fin 70, Fin 90)]"
proof -
  have sp: "splitlines ''Acme 80 70 90'' = [''Acme 80 70 90'']"
    by (simp add: splitlines_def is_linebreak_def code_point_def)
  have tok: "split ''Acme 80 70 90'' = [''Acme'', ''80'', ''70'', ''90'']"
    by (simp add: split_def is_space_def code_point_def)
  show ?thesis by (simp add: pdf_text_def sp tok float_80 float_70 float_90)
qed

lemma one_row_upload:
  "pdf_upload (PdfPages [''Acme 80 70 90'']) df =
     ([Preview ''Acme 80 70 90'', PdfExtracted],
      [(''Company'', [Txt ''Acme'']), (''E'', [Num (Fin 80)]), (''S'', [Num (Fin 70)]),
       (''G'', [Num (Fin 90)]), (''ESG Score'', [Num (Fin 80)]), (''Risk'', [Txt ''Low''])])"
  by (simp add: pdf_upload_def one_row_line Let_def frame_of_rows_def score_eval)
     (simp add: pdf_text_def)

subsection \<open>An exception in the score evaluator of the CSV branch\<close>

text \<open>
  Claim C1 fails on the code. The uploaded file with the header Company, E, S, G and the
  row Acme, high, 70, 90 has a text in its E column. Line 69 assigns the projection to
  \<open>df\<close>, the addition of line 70 raises, and the handler of line 78 reports a read
  error: the table handed to the layout has the row and no ESG Score for it. (The same
  file with 80 in place of the text is scored: the score is 80 and the risk Low.) On the
  other error paths \<open>df\<close> is still the scored sample table.
\<close>

theorem csv_text_cell_unscored:
  "run [''Company'', ''E'', ''S'', ''G''] UploadReport
     (Some (CsvFile (Some [(''Company'', [Txt ''Acme'']), (''E'', [Txt ''high'']),
                           (''S'', [Num (Fin 70)]), (''G'', [Num (Fin 90)])])))
   = Some ([Uploaded, CsvReadError],
      [(''Company'', [Txt ''Acme'']), (''E'', [Txt ''high'']), (''S'', [Num (Fin 70)]),
       (''G'', [Num (Fin 90)])])
   \<and> nrows [(''Company'', [Txt ''Acme'']), (''E'', [Txt ''high'']), (''S'', [Num (Fin 70)]),
       (''G'', [Num (Fin 90)])] = 1
   \<and> entry [(''Company'', [Txt ''Acme'']), (''E'', [Txt ''high'']), (''S'', [Num (Fin 70)]),
       (''G'', [Num (Fin 90)])] ''ESG Score'' 0 = None
   \<and> run [''Company'', ''E'', ''S'', ''G''] UploadReport
     (Some (CsvFile (Some [(''Company'', [Txt ''Acme'']), (''E'', [Num (Fin 80)]),
                           (''S'', [Num (Fin 70)]), (''G'', [Num (Fin 90)])])))
   = Some ([Uploaded, CsvLoaded],
      [(''Company'', [Txt ''Acme'']), (''E'', [Num (Fin 80)]), (''S'', [Num (Fin 70)]),
       (''G'', [Num (Fin 90)]), (''ESG Score'', [Num (Fin 80)]), (''Risk'', [Txt ''Low''])])"
  by (simp add: run_def sample_df_eq text_csv_upload good_csv_upload nrows_def entry_def
      getitem_def cols_def)

text \<open>
  Claim C10 fails on the code, by the same exception. The classifier itself returns one of
  the three tiers for every real score, negative and above 100 included. But the upload
  with the rows Acme, 80, 70, 90 and Bolt, 55, low, 60 (its S column is read as texts)
  reaches the layout with two rows and no Risk column: the addition of line 70 raises
  after line 69 has replaced \<open>df\<close>.
\<close>

theorem csv_text_cell_untiered:
  "(\<forall>x::real. risk (Fin x) = ''Low'' \<or> risk (Fin x) = ''Medium'' \<or> risk (Fin x) = ''High'')
   \<and> risk (Fin (- 5)) = ''High'' \<and> risk (Fin 250) = ''Low''
   \<and> run [''Company'', ''E'', ''S'', ''G''] UploadReport
     (Some (CsvFile (Some [(''Company'', [Txt ''Acme'', Txt ''Bolt'']),
                           (''E'', [Num (Fin 80), Num (Fin 55)]),
                           (''S'', [Txt ''70'', Txt ''low'']),
                           (''G'', [Num (Fin 90), Num (Fin 60)])])))
   = Some ([Uploaded, CsvReadError],
      [(''Company'', [Txt ''Acme'', Txt ''Bolt'']),
       (''E'', [Num (Fin 80), Num (Fin 55)]),
       (''S'', [Txt ''70'', Txt ''low'']),
       (''G'', [Num (Fin 90), Num (Fin 60)])])
   \<and> nrows [(''Company'', [Txt ''Acme'', Txt ''Bolt'']),
       (''E'', [Num (Fin 80), Num (Fin 55)]),
       (''S'', [Txt ''70'', Txt ''low'']),
       (''G'', [Num (Fin 90), Num (Fin 60)])] = 2
   \<and> cols [(''Company'', [Txt ''Acme'', Txt ''Bolt'']),
       (''E'', [Num (Fin 80), Num (Fin 55)]),
       (''S'', [Txt ''70'', Txt ''low'']),
       (''G'', [Num (Fin 90), Num (Fin 60)])] ''Risk'' = []"
proof -
  have a: "\<forall>x::real. risk (Fin x) = ''Low'' \<or> risk (Fin x) = ''Medium'' \<or> risk (Fin x) = ''High''"
    using risk_values by blast
  have b: "risk (Fin (- 5)) = ''High'' \<and> risk (Fin 250) = ''Low''"
    by (simp add: risk_def)
  from a b show ?thesis
    by (simp add: run_def sample_df_eq text2_csv_upload nrows_def cols_def)
qed

subsection \<open>Uploads that fail\<close>

text \<open>
  Claim C4 as stated fails. An execution with an upload of the file with the header
  Company, E, S, G and the row Acme, 80, 70, 90 displays the Acme table. The next
  execution, with an upload that lacks the column G, or with a PDF whose only line is
  "Acme high low", reports the error and displays the sample table, not the Acme table.
\<close>

theorem failed_upload_counterexample:
  "run [''Company'', ''E'', ''S'', ''G''] UploadReport
     (Some (CsvFile (Some [(''Company'', [Txt ''Acme'']), (''E'', [Num (Fin 80)]),
                           (''S'', [Num (Fin 70)]), (''G'', [Num (Fin 90)])])))
   = Some ([Uploaded, CsvLoaded],
      [(''Company'', [Txt ''Acme'']), (''E'', [Num (Fin 80)]), (''S'', [Num (Fin 70)]),
       (''G'', [Num (Fin 90)]), (''ESG Score'', [Num (Fin 80)]), (''Risk'', [Txt ''Low''])])
   \<and> run [''Company'', ''E'', ''S'', ''G''] UploadReport
     (Some (CsvFile (Some [(''Company'', [Txt ''Acme'']), (''E'', [Num (Fin 80)]),
                           (''S'', [Num (Fin 70)])])))
   = Some ([Uploaded, MissingColumns {''G''}],
     [(''Company'', [Txt ''Tesla'', Txt ''Apple'', Txt ''Microsoft'', Txt ''Amazon'', Txt ''Google'']),
      (''E'', [Num (Fin 75), Num (Fin 85), Num (Fin 92), Num (Fin 70), Num (Fin 88)]),
      (''S'', [Num (Fin 65), Num (Fin 90), Num (Fin 88), Num (Fin 60), Num (Fin 80)]),
      (''G'', [Num (Fin 78), Num (Fin 89), Num (Fin 91), Num (Fin 73), Num (Fin 87)]),
      (''ESG Score'', [Num (Fin 72.7), Num (Fin 88), Num (Fin 90.3), Num (Fin 67.7), Num (Fin 85)]),
      (''Risk'', [Txt ''Medium'', Txt ''Low'', Txt ''Low'', Txt ''Medium'', Txt ''Low''])])
   \<and> run [''Company'', ''E'', ''S'', ''G''] UploadReport
     (Some (PdfFile (PdfPages [''Acme high low''])))
   = Some ([Uploaded, Preview ''Acme high low'', NoTableInPdf],
     [(''Company'', [Txt ''Tesla'', Txt ''Apple'', Txt ''Microsoft'', Txt ''Amazon'', Txt ''Google'']),
      (''E'', [Num (Fin 75), Num (Fin 85), Num (Fin 92), Num (Fin 70), Num (Fin 88)]),
      (''S'', [Num (Fin 65), Num (Fin 90), Num (Fin 88), Num (Fin 60), Num (Fin 80)]),
      (''G'', [Num (Fin 78), Num (Fin 89), Num (Fin 91), Num (Fin 73), Num (Fin 87)]),
      (''ESG Score'', [Num (Fin 72.7), Num (Fin 88), Num (Fin 90.3), Num (Fin 67.7), Num (Fin 85)]),
      (''Risk'', [Txt ''Medium'', Txt ''Low'', Txt ''Low'', Txt ''Medium'', Txt ''Low''])])"
  by (simp add: run_def sample_df_eq good_csv_upload bad_csv_upload no_rows_upload)

text \<open>
  Claim C4, as amended. When the normalized upload lacks a required column, the
  execution reports the missing columns, of which there is at least one; when the text of
  a PDF gives no row, it reports that no table was found. In both cases the table of the
  execution is the scored sample table, which is also the table of sample mode: it is
  computed at the start of every execution, and nothing of an earlier execution enters.
\<close>

theorem failed_upload_shows_sample:
  "(\<not> required \<subseteq> set (labels (normalize_columns raw)) \<longrightarrow>
      required - set (labels (normalize_columns raw)) \<noteq> {}
      \<and> run req_list UploadReport (Some (CsvFile (Some raw)))
          = map_option
              (Pair [Uploaded, MissingColumns (required - set (labels (normalize_columns raw)))])
              sample_df)
   \<and> (extract_rows (splitlines (pdf_text pages)) [] = [] \<longrightarrow>
      run req_list UploadReport (Some (PdfFile (PdfPages pages)))
          = map_option (Pair [Uploaded, Preview (take 500 (pdf_text pages)), NoTableInPdf])
              sample_df)
   \<and> run req_list UseSampleData file' = map_option (Pair []) sample_df
   \<and> sample_df \<noteq> None"
proof -
  obtain s where s: "sample_df = Some s" using sample_scored by blast
  have a: "\<not> required \<subseteq> set (labels (normalize_columns raw)) \<longrightarrow>
      required - set (labels (normalize_columns raw)) \<noteq> {}
      \<and> run req_list UploadReport (Some (CsvFile (Some raw)))
          = map_option
              (Pair [Uploaded, MissingColumns (required - set (labels (normalize_columns raw)))])
              sample_df"
  proof
    assume m: "\<not> required \<subseteq> set (labels (normalize_columns raw))"
    then have "required - set (labels (normalize_columns raw)) \<noteq> {}" by blast
    then show "required - set (labels (normalize_columns raw)) \<noteq> {}
      \<and> run req_list UploadReport (Some (CsvFile (Some raw)))
          = map_option
              (Pair [Uploaded, MissingColumns (required - set (labels (normalize_columns raw)))])
              sample_df"
      by (simp add: run_def s csv_upload_missing [OF m])
  qed
  have b: "extract_rows (splitlines (pdf_text pages)) [] = [] \<longrightarrow>
      run req_list UploadReport (Some (PdfFile (PdfPages pages)))
          = map_option (Pair [Uploaded, Preview (take 500 (pdf_text pages)), NoTableInPdf])
              sample_df"
    by (simp add: run_def s pdf_upload_none)
  have c: "run req_list UseSampleData file' = map_option (Pair []) sample_df"
    by (simp add: run_def s)
  have d: "sample_df \<noteq> None" by (simp add: s)
  from a b c d show ?thesis by blast
qed

theorem failed_upload_shows_sample_witness:
  "\<not> required \<subseteq> set (labels (normalize_columns
        [(''Company'', [Txt ''Acme'']), (''E'', [Num (Fin 80)]), (''S'', [Num (Fin 70)])]))
   \<and> extract_rows (splitlines (pdf_text [''Acme high low''])) [] = []
   \<and> required - set (labels (normalize_columns
        [(''Company'', [Txt ''Acme'']), (''E'', [Num (Fin 80)]), (''S'', [Num (Fin 70)])])) = {''G''}
   \<and> run [''G'', ''E'', ''Company'', ''S''] UploadReport
        (Some (CsvFile (Some [(''Company'', [Txt ''Acme'']), (''E'', [Num (Fin 80)]),
                              (''S'', [Num (Fin 70)])])))
      = map_option (Pair [Uploaded, MissingColumns {''G''}]) sample_df
   \<and> run [''G'', ''E'', ''Company'', ''S''] UploadReport
        (Some (PdfFile (PdfPages [''Acme high low''])))
      = map_option (Pair [Uploaded, Preview ''Acme high low'', NoTableInPdf]) sample_df"
proof -
  have m: "required - set (labels (normalize_columns
        [(''Company'', [Txt ''Acme'']), (''E'', [Num (Fin 80)]), (''S'', [Num (Fin 70)])])) = {''G''}"
    by (simp only: bad_csv_normalized bad_csv_missing)
  then have n: "\<not> required \<subseteq> set (labels (normalize_columns
        [(''Company'', [Txt ''Acme'']), (''E'', [Num (Fin 80)]), (''S'', [Num (Fin 70)])]))"
    by blast
  have t: "take 500 (pdf_text [''Acme high low'']) = ''Acme high low''"
    by (simp add: pdf_text_def)
  show ?thesis
    using failed_upload_shows_sample [of
        "[(''Company'', [Txt ''Acme'']), (''E'', [Num (Fin 80)]), (''S'', [Num (Fin 70)])]"
        "[''G'', ''E'', ''Company'', ''S'']" "[''Acme high low'']" None]
      n m no_rows_line t
    by simp
qed

subsection \<open>The order of the columns after a CSV upload\<close>

lemma labels_project_filter:
  "distinct (labels d) \<Longrightarrow> labels (project d ks) = filter (\<lambda>k. k \<in> set (labels d)) ks"
proof (induction ks)
  case Nil
  show ?case by (simp add: project_def labels_def)
next
  case (Cons k ks)
  have "labels (project d (k # ks)) = labels (filter (\<lambda>p. fst p = k) d) @ labels (project d ks)"
    by (simp add: project_def labels_def)
  with Cons show ?case
    by (auto simp: labels_filter filter_distinct_single filter_empty_conv)
qed

text \<open>
  Claim C6 fails on the code. The normalizer renames nothing in a table with the headers
  Company, E, S, G, but line 69 then lays the columns out in the iteration order of the
  set \<open>required\<close>. With the order E, Company, S, G the table comes back with its first
  two columns exchanged. Whatever the order is, it is the same for the table with the
  headers Company, E, S, G and for the one with the headers E, Company, S, G, so one of
  the two does not come back as it was.
\<close>

theorem normalizer_reorders_canonical_table:
  "normalize_columns [(''Company'', [Txt ''Acme'']), (''E'', [Num (Fin 80)]),
                      (''S'', [Num (Fin 70)]), (''G'', [Num (Fin 90)])]
   = [(''Company'', [Txt ''Acme'']), (''E'', [Num (Fin 80)]),
      (''S'', [Num (Fin 70)]), (''G'', [Num (Fin 90)])]
   \<and> project (normalize_columns [(''Company'', [Txt ''Acme'']), (''E'', [Num (Fin 80)]),
                      (''S'', [Num (Fin 70)]), (''G'', [Num (Fin 90)])])
        [''E'', ''Company'', ''S'', ''G'']
   = [(''E'', [Num (Fin 80)]), (''Company'', [Txt ''Acme'']),
      (''S'', [Num (Fin 70)]), (''G'', [Num (Fin 90)])]
   \<and> csv_upload [''E'', ''Company'', ''S'', ''G'']
       (Some [(''Company'', [Txt ''Acme'']), (''E'', [Num (Fin 80)]),
              (''S'', [Num (Fin 70)]), (''G'', [Num (Fin 90)])]) df
   = ([CsvLoaded],
      [(''E'', [Num (Fin 80)]), (''Company'', [Txt ''Acme'']), (''S'', [Num (Fin 70)]),
       (''G'', [Num (Fin 90)]), (''ESG Score'', [Num (Fin 80)]), (''Risk'', [Txt ''Low''])])
   \<and> labels (project (normalize_columns [(''Company'', [Txt ''Acme'']), (''E'', [Num (Fin 80)]),
                      (''S'', [Num (Fin 70)]), (''G'', [Num (Fin 90)])]) req_list)
   = labels (project (normalize_columns [(''E'', [Num (Fin 80)]), (''Company'', [Txt ''Acme'']),
                      (''S'', [Num (Fin 70)]), (''G'', [Num (Fin 90)])]) req_list)"
proof -
  let ?a = "[(''Company'', [Txt ''Acme'']), (''E'', [Num (Fin 80)]),
             (''S'', [Num (Fin 70)]), (''G'', [Num (Fin 90)])]"
  let ?b = "[(''E'', [Num (Fin 80)]), (''Company'', [Txt ''Acme'']),
             (''S'', [Num (Fin 70)]), (''G'', [Num (Fin 90)])]"
  have p: "project ?a [''E'', ''Company'', ''S'', ''G''] = ?b"
    by (simp add: project_def)
  have da: "distinct (labels ?a)" and db: "distinct (labels ?b)"
    by (simp_all add: labels_def)
  have s: "set (labels ?a) = set (labels ?b)"
    by (auto simp: labels_def)
  have l: "labels (project ?a req_list) = labels (project ?b req_list)"
    by (simp only: labels_project_filter [OF da] labels_project_filter [OF db] s)
  show ?thesis
    using p l by (simp only: good_csv_normalized swapped_csv_normalized good_csv_upload_reordered)
qed

text \<open>
  Claim C8 fails on the code, by the same line 69. After the upload of a file with the
  header Company, E, S, G, in an execution where the set \<open>required\<close> iterates as
  E, Company, S, G, the table that is exported has the columns E, Company, S, G,
  ESG Score, Risk. In sample mode and after a PDF upload the columns are in the order of
  the claim. The artifact is the output of pandas' writer for the table, with the file
  name and the type of the claim.
\<close>

theorem csv_path_export_columns:
  "map_option (\<lambda>r. (fst r, labels (snd r)))
     (run [''E'', ''Company'', ''S'', ''G''] UploadReport
        (Some (CsvFile (Some [(''Company'', [Txt ''Acme'']), (''E'', [Num (Fin 80)]),
                              (''S'', [Num (Fin 70)]), (''G'', [Num (Fin 90)])]))))
   = Some ([Uploaded, CsvLoaded], [''E'', ''Company'', ''S'', ''G'', ''ESG Score'', ''Risk''])
   \<and> map_option (\<lambda>r. labels (snd r)) (run req_list UseSampleData file')
   = Some [''Company'', ''E'', ''S'', ''G'', ''ESG Score'', ''Risk'']
   \<and> map_option (\<lambda>r. (fst r, labels (snd r)))
     (run req_list UploadReport (Some (PdfFile (PdfPages [''Acme 80 70 90'']))))
   = Some ([Uploaded, Preview ''Acme 80 70 90'', PdfExtracted],
           [''Company'', ''E'', ''S'', ''G'', ''ESG Score'', ''Risk''])
   \<and> download_button to_csv t
   = \<lparr>data = to_csv t, file_name = ''esg_scores.csv'', mime = ''text/csv''\<rparr>"
  by (simp add: run_def sample_df_eq good_csv_upload_reordered one_row_upload labels_def
      download_button_def)

end
